theory Spec2Isabelle
  imports Main
begin

section \<open>JavaScript values used by the server\<close>

text \<open>
  A string-valued expression that may be \<open>null\<close> or \<open>undefined\<close> is a \<open>string option\<close>.
  JavaScript treats \<open>null\<close>, \<open>undefined\<close> and the empty string as falsy; \<open>a || b\<close> yields
  \<open>a\<close> when it is truthy and \<open>b\<close> otherwise.
\<close>

definition truthy :: "string option \<Rightarrow> bool" where
  "truthy v = (case v of None \<Rightarrow> False | Some s \<Rightarrow> s \<noteq> [])"

definition or_else :: "string option \<Rightarrow> string \<Rightarrow> string" where
  "or_else v d = (case v of None \<Rightarrow> d | Some s \<Rightarrow> if s = [] then d else s)"

text \<open>
  A value of a parsed JSON request body. A field that is missing is \<open>None\<close>
  (\<open>undefined\<close>). Besides the falsy values above, \<open>false\<close> and the number 0 are falsy;
  arrays and objects are truthy. A fractional number behaves here like any non-zero
  integer: truthy, and not a string.
\<close>

datatype json =
    JNull
  | JBool bool
  | JNumber int
  | JString string
  | JArray "json list"
  | JObject "(string \<times> json) list"

definition js_truthy :: "json option \<Rightarrow> bool" where
  "js_truthy v =
     (case v of
        None \<Rightarrow> False
      | Some JNull \<Rightarrow> False
      | Some (JBool b) \<Rightarrow> b
      | Some (JNumber n) \<Rightarrow> n \<noteq> 0
      | Some (JString x) \<Rightarrow> x \<noteq> []
      | Some (JArray xs) \<Rightarrow> True
      | Some (JObject kvs) \<Rightarrow> True)"

text \<open>\<open>String.prototype.charAt\<close>: the empty string outside the range.\<close>

definition charAt :: "string \<Rightarrow> nat \<Rightarrow> string" where
  "charAt s i = (if i < length s then [s ! i] else [])"

text \<open>The decimal rendering of a non-negative integer inside a template literal.\<close>

definition digit_char :: "nat \<Rightarrow> char" where
  "digit_char d = ''0123456789'' ! (d mod 10)"

fun show_nat :: "nat \<Rightarrow> string" where
  "show_nat n = (if n < 10 then [digit_char n] else show_nat (n div 10) @ [digit_char (n mod 10)])"

declare show_nat.simps [simp del]

definition is_digit :: "char \<Rightarrow> bool" where
  "is_digit c = (c \<in> set ''0123456789'')"

text \<open>
  A JavaScript \<open>Map\<close> with string keys, as an association list in insertion order.
  \<open>set\<close> on a key already present replaces the value in place; on a new key it appends.
\<close>

definition map_get :: "(string \<times> 'v) list \<Rightarrow> string \<Rightarrow> 'v option" where
  "map_get m k = map_of m k"

text \<open>The list without its \<open>i\<close>-th element.\<close>

definition remove_nth :: "nat \<Rightarrow> 'a list \<Rightarrow> 'a list" where
  "remove_nth i xs = take i xs @ drop (Suc i) xs"

fun map_set :: "(string \<times> 'v) list \<Rightarrow> string \<Rightarrow> 'v \<Rightarrow> (string \<times> 'v) list" where
  "map_set [] k v = [(k, v)]"
| "map_set ((k', v') # m) k v = (if k' = k then (k, v) # m else (k', v') # map_set m k v)"

section \<open>server.js: the session registry\<close>

record user_info =
  user_id :: string
  user_name :: string
  user_phone :: string

text \<open>
  The object \<open>sessionData\<close> of \<open>createWhatsAppConnection\<close>. The field \<open>id\<close> is written
  \<open>id'\<close> here. \<open>socket\<close> is the number of the connection handle, \<open>authState\<close> the
  folder the credentials were loaded from, \<open>qrImage\<close> is absent until the first rendering.
  \<open>status\<close> keeps the string the source stores.
\<close>

record session =
  id' :: string
  pairingCode :: string
  qr :: "string option"
  status :: string
  socket :: "nat option"
  authState :: string
  createdAt :: nat
  user :: "user_info option"
  qrImage :: "string option"

text \<open>The summary of a session sent in the \<open>init\<close> event.\<close>

record summary =
  sum_id :: string
  sum_pairingCode :: string
  sum_status :: string
  sum_user :: "user_info option"
  qrAvailable :: bool

text \<open>Events delivered to socket.io clients, with their payload fields in source order.\<close>

datatype msg =
    Init "summary list"
  | Qr_update string string string string
  | Session_update string string "(user_info option \<times> string) option"
  | Qr_data string string string

text \<open>
  The process state. Session objects are shared by reference between \<open>activeSessions\<close>,
  \<open>pairingCodes\<close> and the closures of the event handlers, so they live in \<open>heap\<close> and the
  two maps hold addresses (indices into \<open>heap\<close>). \<open>timers\<close> are the pending
  \<open>setTimeout(() => createWhatsAppConnection(sessionData.id), 5000)\<close> callbacks, oldest
  first, each with the session id it will pass. \<open>clients\<close> holds, for every connected
  socket.io client, the events delivered to it so far in order. \<open>outbound\<close> lists the
  \<open>sendMessage\<close> calls made on connection handles: handle, recipient jid, session id and
  pairing code quoted in the text. \<open>sockets\<close> counts the handles made by \<open>makeWASocket\<close>.

  \<open>createWhatsAppConnection\<close> is an \<open>async\<close> function with two \<open>await\<close>s, and no caller
  awaits it. \<open>loading\<close> holds the calls suspended at
  \<open>await useMultiFileAuthState(authFolder)\<close>, each with its argument; \<open>fetching\<close> holds
  the addresses of the records whose call is suspended at
  \<open>await fetchLatestBaileysVersion()\<close>, before the connection handle is made.
\<close>

record server =
  heap :: "session list"
  activeSessions :: "(string \<times> nat) list"
  pairingCodes :: "(string \<times> nat) list"
  timers :: "string list"
  clients :: "msg list list"
  outbound :: "(nat \<times> string \<times> string \<times> string) list"
  sockets :: nat
  loading :: "string option list"
  fetching :: "nat list"

definition init_server :: server where
  "init_server = \<lparr> heap = [], activeSessions = [], pairingCodes = [], timers = [],
     clients = [], outbound = [], sockets = 0, loading = [], fetching = [] \<rparr>"

definition deref :: "server \<Rightarrow> nat \<Rightarrow> session option" where
  "deref st a = (if a < length (heap st) then Some (heap st ! a) else None)"

definition modify :: "nat \<Rightarrow> (session \<Rightarrow> session) \<Rightarrow> server \<Rightarrow> server" where
  "modify a f st = st\<lparr> heap := (heap st)[a := f (heap st ! a)] \<rparr>"

text \<open>\<open>io.emit\<close>: the event is appended to the inbox of every connected client.\<close>

definition io_emit :: "msg \<Rightarrow> server \<Rightarrow> server" where
  "io_emit ev st = st\<lparr> clients := map (\<lambda>inbox. inbox @ [ev]) (clients st) \<rparr>"

subsection \<open>generatePairingCode\<close>

definition chars :: string where
  "chars = ''ABCDEFGHIJKLMNOPQRSTUVWXYZ0123456789''"

text \<open>
  \<open>rnd i\<close> is the value of \<open>Math.floor(Math.random() * chars.length)\<close> at the \<open>i\<close>-th
  iteration. The loop runs \<open>i\<close> from 0 to 7 and appends one character each time.
\<close>

function generatePairingCode_loop :: "(nat \<Rightarrow> nat) \<Rightarrow> nat \<Rightarrow> string \<Rightarrow> string" where
  "generatePairingCode_loop rnd i code =
     (if i < 8 then generatePairingCode_loop rnd (i + 1) (code @ charAt chars (rnd i)) else code)"
  by pat_completeness auto
termination
  by (relation "measure (\<lambda>(rnd, i, code). 8 - i)") auto

declare generatePairingCode_loop.simps [simp del]

definition generatePairingCode :: "(nat \<Rightarrow> nat) \<Rightarrow> string" where
  "generatePairingCode rnd = generatePairingCode_loop rnd 0 []"

subsection \<open>createWhatsAppConnection\<close>

definition AUTH_FOLDER :: string where
  "AUTH_FOLDER = ''ian_tech_auth''"

text \<open>
  The function runs in three stages, separated by its two \<open>await\<close>s; other events of
  the process can run between them.

  The call itself, with \<open>sessionId\<close> the argument (\<open>None\<close> for the default \<open>null\<close>): it
  prepares the folder, starts loading the credentials and suspends. Nothing in the
  process state changes but the suspended call.
\<close>

definition createWhatsAppConnection :: "string option \<Rightarrow> server \<Rightarrow> server" where
  "createWhatsAppConnection sessionId st = st\<lparr> loading := loading st @ [sessionId] \<rparr>"

text \<open>
  The second stage (lines 76 to 95), run when the load has resolved: \<open>now\<close> is the clock
  reading of \<open>Date.now()\<close> and \<open>new Date()\<close>. It builds the record with \<open>socket: null\<close>,
  stores it under \<open>sessionId || 'default'\<close> and under its pairing code with \<open>Map.set\<close>
  (no test of either map precedes the two calls) and suspends again. It returns the
  address of the new record and the new state.
\<close>

definition createWhatsAppConnection_loaded ::
  "(nat \<Rightarrow> nat) \<Rightarrow> nat \<Rightarrow> string option \<Rightarrow> server \<Rightarrow> nat \<times> server" where
  "createWhatsAppConnection_loaded rnd now sessionId st =
     (let authFolder = (case sessionId of
                          None \<Rightarrow> AUTH_FOLDER
                        | Some s \<Rightarrow> if s = [] then AUTH_FOLDER else AUTH_FOLDER @ ''/'' @ s);
          code = generatePairingCode rnd;
          sessionData = \<lparr> id' = or_else sessionId (''IAN-TECH-'' @ show_nat now),
                          pairingCode = code,
                          qr = None,
                          status = ''initializing'',
                          socket = None,
                          authState = authFolder,
                          createdAt = now,
                          user = None,
                          qrImage = None \<rparr>;
          a = length (heap st);
          st1 = st\<lparr> heap := heap st @ [sessionData],
                     activeSessions := map_set (activeSessions st) (or_else sessionId ''default'') a,
                     pairingCodes := map_set (pairingCodes st) code a \<rparr>
      in (a, st1\<lparr> fetching := fetching st1 @ [a] \<rparr>))"

text \<open>
  The third stage (lines 96 to 189), for the record at address \<open>a\<close>: the connection
  handle is made and stored in the record, and the event handlers are registered.
\<close>

definition createWhatsAppConnection_opened :: "nat \<Rightarrow> server \<Rightarrow> server" where
  "createWhatsAppConnection_opened a st =
     (if a < length (heap st) then
        (let sock = sockets st
         in modify a (\<lambda>s. s\<lparr> socket := Some sock \<rparr>) (st\<lparr> sockets := sock + 1 \<rparr>))
      else st)"

text \<open>
  A pending load settles. When it resolves, the second stage runs with the random draws
  and the clock reading given; when it rejects (\<open>None\<close>), the promise of the call
  rejects and no line after the \<open>await\<close> runs: no record is built or stored.
\<close>

definition load_settles :: "nat \<Rightarrow> ((nat \<Rightarrow> nat) \<times> nat) option \<Rightarrow> server \<Rightarrow> server" where
  "load_settles i outcome st =
     (if i < length (loading st) then
        (let sessionId = loading st ! i;
             st1 = st\<lparr> loading := remove_nth i (loading st) \<rparr>
         in case outcome of
              None \<Rightarrow> st1
            | Some (rnd, now) \<Rightarrow> snd (createWhatsAppConnection_loaded rnd now sessionId st1))
      else st)"

text \<open>
  The second \<open>await\<close> settles. When the version fetch resolves and \<open>makeWASocket\<close>
  returns (\<open>ok\<close>), the third stage runs; otherwise the promise rejects and the record
  stays in both maps with \<open>socket: null\<close> and without handlers.
\<close>

definition open_settles :: "nat \<Rightarrow> bool \<Rightarrow> server \<Rightarrow> server" where
  "open_settles i ok st =
     (if i < length (fetching st) then
        (let a = fetching st ! i;
             st1 = st\<lparr> fetching := remove_nth i (fetching st) \<rparr>
         in if ok then createWhatsAppConnection_opened a st1 else st1)
      else st)"

subsection \<open>The connection.update handler\<close>

text \<open>
  The fields the handler reads from an update: \<open>connection\<close>, the status code
  \<open>lastDisconnect?.error?.output?.statusCode\<close> (\<open>None\<close> when any link of the chain is
  missing) and \<open>qr\<close> (written \<open>qr_code\<close>).
\<close>

record update =
  connection :: "string option"
  lastDisconnect :: "nat option"
  qr_code :: "string option"

text \<open>
  What the handler obtains from its collaborators while it runs: the result of
  \<open>qrcode.toDataURL\<close> (\<open>None\<close> when it throws) and \<open>sock.user\<close>, the identity with its
  id and optional name.
\<close>

record collaborators =
  toDataURL :: "string \<Rightarrow> string option"
  sock_user :: "(string \<times> string option) option"

text \<open>
  \<open>DisconnectReason.loggedOut\<close>, a constant of the connection library (401 there). The
  handler only compares the status code with it; no general result below depends on
  the number.
\<close>

definition loggedOut :: nat where
  "loggedOut = 401"

text \<open>
  The three branches of the handler registered for the record at address \<open>a\<close>. Each is
  one \<open>if\<close> block of the source; they run in this order on the same update. The handler
  runs to completion here: the model does not interleave other events at its \<open>await\<close>s.
  The handler exists once the third stage of the creation has run; the model accepts an
  update for any record of the heap, which only adds runs.
\<close>

definition on_qr :: "collaborators \<Rightarrow> nat \<Rightarrow> string \<Rightarrow> server \<Rightarrow> server" where
  "on_qr env a q st =
     (let st1 = modify a (\<lambda>s. s\<lparr> qr := Some q, status := ''qr_ready'' \<rparr>) st
      in case toDataURL env q of
           None \<Rightarrow> st1
         | Some qrImg \<Rightarrow>
             (let st2 = modify a (\<lambda>s. s\<lparr> qrImage := Some qrImg \<rparr>) st1;
                  s = heap st2 ! a
              in io_emit (Qr_update (id' s) qrImg (pairingCode s) (status s)) st2))"

definition on_open :: "collaborators \<Rightarrow> nat \<Rightarrow> server \<Rightarrow> server" where
  "on_open env a st =
     (let st1 = modify a (\<lambda>s. s\<lparr> status := ''connected'' \<rparr>) st;
          st2 = (case sock_user env of
                   None \<Rightarrow> st1
                 | Some (uid, name) \<Rightarrow>
                     modify a (\<lambda>s. s\<lparr> user := Some \<lparr> user_id = uid,
                         user_name = or_else name ''Unknown'',
                         user_phone = filter is_digit (takeWhile (\<lambda>c. c \<noteq> CHR '':'') uid) \<rparr> \<rparr>) st1);
          s = heap st2 ! a
      in io_emit (Session_update (id' s) (status s) (Some (user s, pairingCode s))) st2)"

definition on_close :: "nat \<Rightarrow> nat option \<Rightarrow> server \<Rightarrow> server" where
  "on_close a statusCode st =
     (let shouldReconnect = (statusCode \<noteq> Some loggedOut);
          st1 = modify a (\<lambda>s. s\<lparr> status := ''disconnected'' \<rparr>) st;
          s = heap st1 ! a;
          st2 = io_emit (Session_update (id' s) (status s) None) st1
      in if shouldReconnect then st2\<lparr> timers := timers st2 @ [id' s] \<rparr> else st2)"

definition connection_update :: "collaborators \<Rightarrow> nat \<Rightarrow> update \<Rightarrow> server \<Rightarrow> server" where
  "connection_update env a u st =
     (if a < length (heap st) then
        (let st1 = (case qr_code u of
                      None \<Rightarrow> st
                    | Some q \<Rightarrow> if q = [] then st else on_qr env a q st);
             st2 = (if connection u = Some ''open'' then on_open env a st1 else st1);
             st3 = (if connection u = Some ''close'' then on_close a (lastDisconnect u) st2 else st2)
         in st3)
      else st)"

text \<open>A reconnection timer fires: the oldest pending callback calls \<open>createWhatsAppConnection\<close>.\<close>

definition fire_timer :: "server \<Rightarrow> server" where
  "fire_timer st =
     (case timers st of
        [] \<Rightarrow> st
      | sid # rest \<Rightarrow> createWhatsAppConnection (Some sid) (st\<lparr> timers := rest \<rparr>))"

subsection \<open>HTTP routes\<close>

datatype body =
    Error string
  | Created "string option" "string option"
  | Paired string

datatype response =
    Json nat body
  | Png string

text \<open>
  \<open>POST /api/create-session\<close>, with the \<open>sessionId\<close> field of the body a string or
  absent. The route calls \<open>createWhatsAppConnection\<close> without awaiting it: \<open>sessionData\<close> is
  the pending promise, whose \<open>id\<close> and \<open>pairingCode\<close> are \<open>undefined\<close>, and a rejection
  of the promise cannot reach the \<open>catch\<close>. The response is sent at once with the
  default status 200, while the call is still suspended at its first \<open>await\<close>: the
  registry is as it was before the request.
\<close>

definition post_create_session :: "nat \<Rightarrow> string option \<Rightarrow> server \<Rightarrow> response \<times> server" where
  "post_create_session now body_sessionId st =
     (let sessionId = or_else body_sessionId (''IAN-TECH-'' @ show_nat now);
          st' = createWhatsAppConnection (Some sessionId) st
      in (Json 200 (Created None None), st'))"

text \<open>
  \<open>POST /api/pair-with-code\<close>. The two body fields are any JSON values or absent.
  \<open>phoneNumber.replace\<close> exists only when \<open>phoneNumber\<close> is a string: for any other
  truthy value the call throws a \<open>TypeError\<close>, and the \<open>catch\<close> answers 500. A pairing
  code that is not a string is no key of \<open>pairingCodes\<close>. \<open>send_ok\<close> tells whether
  \<open>sendMessage\<close> resolves; when it rejects, or when the record has no handle, the
  \<open>catch\<close> answers 500 too.
\<close>

definition post_pair_with_code ::
  "bool \<Rightarrow> json option \<Rightarrow> json option \<Rightarrow> server \<Rightarrow> response \<times> server" where
  "post_pair_with_code send_ok body_pairingCode body_phoneNumber st =
     (if \<not> js_truthy body_pairingCode \<or> \<not> js_truthy body_phoneNumber then
        (Json 400 (Error ''Pairing code and phone number are required''), st)
      else
        (case body_phoneNumber of
           Some (JString phoneNumber) \<Rightarrow>
             (let cleanedNumber = filter is_digit phoneNumber
              in if take 3 cleanedNumber \<noteq> ''254'' \<or> length cleanedNumber \<noteq> 12 then
                   (Json 400 (Error ''Phone number must be in format: +254723278526''), st)
                 else
                   (case (case body_pairingCode of
                            Some (JString code) \<Rightarrow>
                              (case map_get (pairingCodes st) code of
                                 None \<Rightarrow> None
                               | Some a \<Rightarrow>
                                   \<comment> \<open>an address stored in a map always lies in the heap; see \<open>wf_run\<close>\<close>
                                   (case deref st a of
                                      None \<Rightarrow> None
                                    | Some sessionData \<Rightarrow> Some (code, sessionData)))
                          | _ \<Rightarrow> None) of
                      None \<Rightarrow> (Json 404 (Error ''Invalid pairing code''), st)
                    | Some (code, sessionData) \<Rightarrow>
                        if status sessionData \<noteq> ''connected'' then
                          (Json 400 (Error ''Session not connected yet''), st)
                        else
                          (case socket sessionData of
                             None \<Rightarrow> (Json 500 (Error ''TypeError''), st)
                           | Some sock \<Rightarrow>
                               (let jid = cleanedNumber @ ''@s.whatsapp.net'';
                                    st' = st\<lparr> outbound := outbound st @
                                            [(sock, jid, id' sessionData, code)] \<rparr>
                                in if send_ok then (Json 200 (Paired (id' sessionData)), st')
                                   else (Json 500 (Error ''send failed''), st')))))
         | _ \<Rightarrow> (Json 500 (Error ''phoneNumber.replace is not a function''), st)))"

text \<open>
  \<open>GET /api/qr/:sessionId\<close>. \<open>toBuffer\<close> is \<open>qrcode.toBuffer\<close>, \<open>None\<close> when it throws.
\<close>

definition get_api_qr :: "(string \<Rightarrow> string option) \<Rightarrow> string \<Rightarrow> server \<Rightarrow> response" where
  "get_api_qr toBuffer sessionId st =
     (let found = (case map_get (activeSessions st) sessionId of
                     Some a \<Rightarrow> Some a
                   | None \<Rightarrow> map_get (activeSessions st) ''default'')
      in case (case found of None \<Rightarrow> None | Some a \<Rightarrow> deref st a) of
           None \<Rightarrow> Json 404 (Error ''QR code not available'')
         | Some sessionData \<Rightarrow>
             if \<not> truthy (qr sessionData) then Json 404 (Error ''QR code not available'')
             else (case toBuffer (or_else (qr sessionData) []) of
                     None \<Rightarrow> Json 500 (Error ''render failed'')
                   | Some qrImg \<Rightarrow> Png qrImg))"

subsection \<open>socket.io clients\<close>

definition summary_of :: "session \<Rightarrow> summary" where
  "summary_of s = \<lparr> sum_id = id' s, sum_pairingCode = pairingCode s, sum_status = status s,
     sum_user = user s, qrAvailable = truthy (qr s) \<rparr>"

text \<open>
  \<open>Array.from(activeSessions.values()).map(...)\<close>: one summary per entry of the map, in
  insertion order.
\<close>

definition snapshot :: "server \<Rightarrow> summary list" where
  "snapshot st = map (\<lambda>(k, a). summary_of (heap st ! a)) (activeSessions st)"

text \<open>
  The \<open>connection\<close> handler of \<open>io\<close>: the new client joins and \<open>init\<close> is emitted to it in
  the same synchronous block, so its inbox starts with \<open>init\<close>. Its number is its position
  in \<open>clients\<close>. A client that disconnects is not removed here: its inbox is no longer
  read.
\<close>

definition io_connection :: "server \<Rightarrow> server" where
  "io_connection st = st\<lparr> clients := clients st @ [[Init (snapshot st)]] \<rparr>"

definition client_create_session :: "nat \<Rightarrow> string option \<Rightarrow> server \<Rightarrow> server" where
  "client_create_session now data_sessionId st =
     createWhatsAppConnection (Some (or_else data_sessionId (''IAN-TECH-'' @ show_nat now))) st"

definition client_get_qr :: "nat \<Rightarrow> string option \<Rightarrow> server \<Rightarrow> server" where
  "client_get_qr c data_sessionId st =
     (case map_get (activeSessions st) (or_else data_sessionId ''default'') of
        None \<Rightarrow> st
      | Some a \<Rightarrow>
          (case deref st a of
             None \<Rightarrow> st
           | Some sessionData \<Rightarrow>
               if truthy (qrImage sessionData) \<and> c < length (clients st) then
                 st\<lparr> clients := (clients st)[c := clients st ! c @
                       [Qr_data (id' sessionData) (or_else (qrImage sessionData) [])
                          (pairingCode sessionData)]] \<rparr>
               else st))"

subsection \<open>Runs of the server\<close>

text \<open>
  Everything that can happen to the process after start: a call of
  \<open>createWhatsAppConnection\<close> (the start-up call passes no id), a pending load or a
  pending version fetch settling, a connection update for the handler of some record, a timer
  firing, the HTTP requests that touch the state and the socket.io events. A run applies
  a list of them in order.
\<close>

datatype action =
    Call "string option"
  | Loaded nat "((nat \<Rightarrow> nat) \<times> nat) option"
  | Opened nat bool
  | Update collaborators nat update
  | Timer
  | Http_create nat "string option"
  | Http_pair bool "json option" "json option"
  | Subscribe
  | Client_create nat "string option"
  | Client_get_qr nat "string option"

fun step :: "action \<Rightarrow> server \<Rightarrow> server" where
  "step (Call sessionId) st = createWhatsAppConnection sessionId st"
| "step (Loaded i outcome) st = load_settles i outcome st"
| "step (Opened i ok) st = open_settles i ok st"
| "step (Update env a u) st = connection_update env a u st"
| "step Timer st = fire_timer st"
| "step (Http_create now sid) st = snd (post_create_session now sid st)"
| "step (Http_pair ok code phone) st = snd (post_pair_with_code ok code phone st)"
| "step Subscribe st = io_connection st"
| "step (Client_create now sid) st = client_create_session now sid st"
| "step (Client_get_qr c sid) st = client_get_qr c sid st"

fun run :: "action list \<Rightarrow> server \<Rightarrow> server" where
  "run [] st = st"
| "run (x # xs) st = run xs (step x st)"

section \<open>The single-connection server\<close>

text \<open>
  The second source file keeps one connection in module variables: \<open>status\<close>, \<open>qr\<close>,
  \<open>isConnecting\<close> and \<open>sock\<close>. \<open>bot_timers\<close> counts the pending
  \<open>setTimeout(connectToWhatsApp, ...)\<close> callbacks and \<open>attempts\<close> the connections
  opened with \<open>makeWASocket\<close>. The events it emits to clients are left out.
\<close>

record bot =
  bot_status :: string
  bot_qr :: string
  isConnecting :: bool
  bot_sock :: "nat option"
  bot_timers :: nat
  attempts :: nat

definition init_bot :: bot where
  "init_bot = \<lparr> bot_status = ''disconnected'', bot_qr = [], isConnecting = False,
     bot_sock = None, bot_timers = 0, attempts = 0 \<rparr>"

text \<open>
  \<open>connectToWhatsApp\<close>: \<open>ok\<close> tells whether the \<open>try\<close> block completes; otherwise the
  \<open>catch\<close> block runs and schedules another call.
\<close>

definition connectToWhatsApp :: "bool \<Rightarrow> bot \<Rightarrow> bot" where
  "connectToWhatsApp ok b =
     (if isConnecting b then b
      else
        (let b1 = b\<lparr> isConnecting := True, bot_status := ''connecting'' \<rparr>
         in if ok then b1\<lparr> bot_sock := Some (attempts b1), attempts := attempts b1 + 1 \<rparr>
            else b1\<lparr> bot_status := ''error'', isConnecting := False,
                     bot_timers := bot_timers b1 + 1 \<rparr>))"

definition bot_connection_update :: "update \<Rightarrow> bot \<Rightarrow> bot" where
  "bot_connection_update u b =
     (let b1 = (case qr_code u of
                  None \<Rightarrow> b
                | Some q \<Rightarrow> if q = [] then b else b\<lparr> bot_qr := q, bot_status := ''qr_ready'' \<rparr>);
          b2 = (if connection u = Some ''open''
                then b1\<lparr> bot_status := ''connected'', isConnecting := False \<rparr> else b1);
          b3 = (if connection u = Some ''close'' then
                  (let b' = b2\<lparr> bot_status := ''disconnected'', isConnecting := False \<rparr>;
                       shouldReconnect = (lastDisconnect u \<noteq> Some loggedOut)
                   in if shouldReconnect then b'\<lparr> bot_timers := bot_timers b' + 1 \<rparr> else b')
                else b2)
      in b3)"

definition bot_fire_timer :: "bool \<Rightarrow> bot \<Rightarrow> bot" where
  "bot_fire_timer ok b =
     (if bot_timers b = 0 then b
      else connectToWhatsApp ok (b\<lparr> bot_timers := bot_timers b - 1 \<rparr>))"

section \<open>Well-formed states and concrete scenarios\<close>

text \<open>
  Every address stored in one of the two maps lies in the heap, and a map has no key
  twice.
\<close>

definition wf :: "server \<Rightarrow> bool" where
  "wf st = (list_all (\<lambda>(k, a). a < length (heap st)) (activeSessions st) \<and>
            list_all (\<lambda>(k, a). a < length (heap st)) (pairingCodes st) \<and>
            distinct (map fst (activeSessions st)) \<and>
            distinct (map fst (pairingCodes st)))"

text \<open>Fixed inputs for the scenarios below.\<close>

definition rnd0 :: "nat \<Rightarrow> nat" where
  "rnd0 i = 0"

definition env0 :: collaborators where
  "env0 = \<lparr> toDataURL = (\<lambda>q. Some (''data:'' @ q)),
            sock_user = Some (''254700000000:7@s.whatsapp.net'', None) \<rparr>"

definition qr_event :: update where
  "qr_event = \<lparr> connection = None, lastDisconnect = None, qr_code = Some ''2@abc'' \<rparr>"

definition open_event :: update where
  "open_event = \<lparr> connection = Some ''open'', lastDisconnect = None, qr_code = None \<rparr>"

definition close_event :: "nat option \<Rightarrow> update" where
  "close_event c = \<lparr> connection = Some ''close'', lastDisconnect = c, qr_code = None \<rparr>"

text \<open>
  What one connection update does to the record of its handler, field by field; lemma
  \<open>connection_update_heap\<close> relates it to the handler.
\<close>

definition after_update :: "collaborators \<Rightarrow> update \<Rightarrow> session \<Rightarrow> session" where
  "after_update env u s =
     (let s1 = (case qr_code u of
                  None \<Rightarrow> s
                | Some q \<Rightarrow> if q = [] then s
                    else s\<lparr> qr := Some q, status := ''qr_ready'',
                           qrImage := (case toDataURL env q of None \<Rightarrow> qrImage s | Some i \<Rightarrow> Some i) \<rparr>);
          s2 = (if connection u = Some ''open'' then
                  s1\<lparr> status := ''connected'',
                      user := (case sock_user env of
                                 None \<Rightarrow> user s1
                               | Some (uid, name) \<Rightarrow> Some \<lparr> user_id = uid,
                                   user_name = or_else name ''Unknown'',
                                   user_phone = filter is_digit (takeWhile (\<lambda>c. c \<noteq> CHR '':'') uid) \<rparr>) \<rparr>
                else s1);
          s3 = (if connection u = Some ''close'' then s2\<lparr> status := ''disconnected'' \<rparr> else s2)
      in s3)"

text \<open>A session \<open>A\<close> just created, and the same session after a challenge and an open event.\<close>

definition s_created :: server where
  "s_created = run [Call (Some ''A''), Loaded 0 (Some (rnd0, 1)), Opened 0 True] init_server"

definition s_connected :: server where
  "s_connected = run [Update env0 0 qr_event, Update env0 0 open_event] s_created"

text \<open>
  The default session after a challenge event, two sessions created with the same random
  draws, and a renderer for \<open>qrcode.toBuffer\<close> that succeeds.
\<close>

definition s_default_qr :: server where
  "s_default_qr =
     run [Call None, Loaded 0 (Some (rnd0, 5)), Opened 0 True, Update env0 0 qr_event]
       init_server"

definition render0 :: "string \<Rightarrow> string option" where
  "render0 q = Some (''png:'' @ q)"

definition s_two :: server where
  "s_two = run [Call (Some ''B''), Loaded 0 (Some (rnd0, 2)), Opened 0 True] s_created"

text \<open>
  \<open>extends st st'\<close>: every client of \<open>st\<close> is still a client in \<open>st'\<close>, at the same
  position, and its inbox in \<open>st'\<close> is its inbox in \<open>st\<close> followed by further events.
\<close>

definition extends :: "server \<Rightarrow> server \<Rightarrow> bool" where
  "extends st st' = (length (clients st) \<le> length (clients st') \<and>
     (\<forall>c < length (clients st). \<exists>rest. clients st' ! c = clients st ! c @ rest))"

text \<open>
  The connected session \<open>A\<close> after a close event with the logged-out status code, and
  after two close events with no status code; the default session after a close event
  and the firing of its reconnection timer.
\<close>

definition s_logged_out :: server where
  "s_logged_out = connection_update env0 0 (close_event (Some loggedOut)) s_connected"

definition s_closed_twice :: server where
  "s_closed_twice =
     run [Update env0 0 (close_event None), Update env0 0 (close_event None)] s_connected"

definition s_default_reconnected :: server where
  "s_default_reconnected =
     run [Call None, Loaded 0 (Some (rnd0, 5)), Opened 0 True, Update env0 0 (close_event None),
          Timer, Loaded 0 (Some (rnd0, 7)), Opened 0 True] init_server"

text \<open>
  A creation request without an id, its load resolved; and a creation request for the id
  \<open>A\<close> on the connected session \<open>A\<close>, its load resolved.
\<close>

definition s_http_no_id :: server where
  "s_http_no_id = run [Http_create 42 None, Loaded 0 (Some (rnd0, 43))] init_server"

definition s_recreated :: server where
  "s_recreated = run [Http_create 3 (Some ''A''), Loaded 0 (Some (rnd0, 4))] s_connected"


text \<open>Every record whose status is \<open>qr_ready\<close> has a stored challenge.\<close>

definition qr_inv :: "server \<Rightarrow> bool" where
  "qr_inv st = list_all (\<lambda>s. status s = ''qr_ready'' \<longrightarrow> truthy (qr s)) (heap st)"

section \<open>Maps, frames and well-formedness\<close>

lemma map_of_map_set: "map_of (map_set m k v) = (map_of m)(k \<mapsto> v)"
  by (induction m) (auto)

lemma map_get_map_set: "map_get (map_set m k v) k' = (if k' = k then Some v else map_get m k')"
  by (simp add: map_get_def map_of_map_set)

lemma keys_map_set: "fst ` set (map_set m k v) = insert k (fst ` set m)"
proof -
  have "dom (map_of (map_set m k v)) = insert k (dom (map_of m))"
    by (simp add: map_of_map_set)
  then show ?thesis by (simp add: dom_map_of_conv_image_fst)
qed

lemma distinct_map_set: "distinct (map fst m) \<Longrightarrow> distinct (map fst (map_set m k v))"
  by (induction m) (auto simp: keys_map_set)

lemma list_all_map_set:
  "list_all P m \<Longrightarrow> P (k, v) \<Longrightarrow> list_all P (map_set m k v)"
  by (induction m) auto

lemma length_map_set:
  "length (map_set m k v) = (if k \<in> fst ` set m then length m else Suc (length m))"
  by (induction m) (auto simp: rev_image_eqI)

lemma nth_list_update_any:
  "xs[i := x] ! j = (if i = j \<and> i < length xs then x else xs ! j)"
  by (cases "i < length xs") (simp_all add: nth_list_update list_update_beyond)

lemma modify_simps:
  "heap (modify a f st) = (heap st)[a := f (heap st ! a)]"
  "activeSessions (modify a f st) = activeSessions st"
  "pairingCodes (modify a f st) = pairingCodes st"
  "timers (modify a f st) = timers st"
  "clients (modify a f st) = clients st"
  "outbound (modify a f st) = outbound st"
  "sockets (modify a f st) = sockets st"
  "loading (modify a f st) = loading st"
  "fetching (modify a f st) = fetching st"
  by (simp_all add: modify_def)

lemma io_emit_simps:
  "heap (io_emit ev st) = heap st"
  "activeSessions (io_emit ev st) = activeSessions st"
  "pairingCodes (io_emit ev st) = pairingCodes st"
  "timers (io_emit ev st) = timers st"
  "clients (io_emit ev st) = map (\<lambda>inbox. inbox @ [ev]) (clients st)"
  "outbound (io_emit ev st) = outbound st"
  "sockets (io_emit ev st) = sockets st"
  by (simp_all add: io_emit_def)

lemma on_qr_heap:
  "a < length (heap st) \<Longrightarrow> heap (on_qr env a q st) =
     (heap st)[a := (heap st ! a)\<lparr> qr := Some q, status := ''qr_ready'',
        qrImage := (case toDataURL env q of None \<Rightarrow> qrImage (heap st ! a) | Some i \<Rightarrow> Some i) \<rparr>]"
  by (simp_all add: on_qr_def Let_def modify_simps io_emit_simps split: option.splits)

lemma on_qr_simps:
  "activeSessions (on_qr env a q st) = activeSessions st"
  "pairingCodes (on_qr env a q st) = pairingCodes st"
  "timers (on_qr env a q st) = timers st"
  "outbound (on_qr env a q st) = outbound st"
  "sockets (on_qr env a q st) = sockets st"
  by (simp_all add: on_qr_def Let_def modify_simps io_emit_simps split: option.splits)

lemma on_open_heap:
  "a < length (heap st) \<Longrightarrow> heap (on_open env a st) =
     (heap st)[a := (heap st ! a)\<lparr> status := ''connected'',
        user := (case sock_user env of
                   None \<Rightarrow> user (heap st ! a)
                 | Some (uid, name) \<Rightarrow> Some \<lparr> user_id = uid,
                         user_name = or_else name ''Unknown'',
                         user_phone = filter is_digit (takeWhile (\<lambda>c. c \<noteq> CHR '':'') uid) \<rparr>) \<rparr>]"
  by (simp_all add: on_open_def Let_def modify_simps io_emit_simps split: option.splits prod.splits)

lemma on_open_simps:
  "activeSessions (on_open env a st) = activeSessions st"
  "pairingCodes (on_open env a st) = pairingCodes st"
  "timers (on_open env a st) = timers st"
  "outbound (on_open env a st) = outbound st"
  "sockets (on_open env a st) = sockets st"
  by (simp_all add: on_open_def Let_def modify_simps io_emit_simps split: option.splits prod.splits)

lemma on_close_simps:
  "heap (on_close a c st) = (heap st)[a := (heap st ! a)\<lparr> status := ''disconnected'' \<rparr>]"
  "activeSessions (on_close a c st) = activeSessions st"
  "pairingCodes (on_close a c st) = pairingCodes st"
  "a < length (heap st) \<Longrightarrow> timers (on_close a c st) =
     (if c \<noteq> Some loggedOut then timers st @ [id' (heap st ! a)] else timers st)"
  "outbound (on_close a c st) = outbound st"
  "sockets (on_close a c st) = sockets st"
  by (simp_all add: on_close_def Let_def modify_simps io_emit_simps)

lemma loaded_eq:
  "createWhatsAppConnection_loaded rnd now sessionId st =
     (length (heap st),
      st\<lparr> heap := heap st @
             [\<lparr> id' = or_else sessionId (''IAN-TECH-'' @ show_nat now),
                pairingCode = generatePairingCode rnd,
                qr = None,
                status = ''initializing'',
                socket = None,
                authState = (case sessionId of
                          None \<Rightarrow> AUTH_FOLDER
                        | Some s \<Rightarrow> if s = [] then AUTH_FOLDER else AUTH_FOLDER @ ''/'' @ s),
                createdAt = now,
                user = None,
                qrImage = None \<rparr>],
          activeSessions := map_set (activeSessions st) (or_else sessionId ''default'') (length (heap st)),
          pairingCodes := map_set (pairingCodes st) (generatePairingCode rnd) (length (heap st)),
          fetching := fetching st @ [length (heap st)] \<rparr>)"
  by (simp add: createWhatsAppConnection_loaded_def Let_def)

lemma opened_simps:
  "heap (createWhatsAppConnection_opened a st) =
     (heap st)[a := (heap st ! a)\<lparr> socket := Some (sockets st) \<rparr>]"
  "activeSessions (createWhatsAppConnection_opened a st) = activeSessions st"
  "pairingCodes (createWhatsAppConnection_opened a st) = pairingCodes st"
  "timers (createWhatsAppConnection_opened a st) = timers st"
  "clients (createWhatsAppConnection_opened a st) = clients st"
  "outbound (createWhatsAppConnection_opened a st) = outbound st"
  by (simp_all add: createWhatsAppConnection_opened_def Let_def modify_def list_update_beyond)

lemma on_qr_length [simp]: "length (heap (on_qr env a q st)) = length (heap st)"
  by (simp add: on_qr_def Let_def modify_simps io_emit_simps split: option.splits)

lemma on_open_length [simp]: "length (heap (on_open env a st)) = length (heap st)"
  by (simp add: on_open_def Let_def modify_simps io_emit_simps split: option.splits prod.splits)

lemma on_close_length [simp]: "length (heap (on_close a c st)) = length (heap st)"
  by (simp add: on_close_simps)

lemma connection_update_heap:
  "a < length (heap st) \<Longrightarrow>
   heap (connection_update env a u st) = (heap st)[a := after_update env u (heap st ! a)]"
  by (simp add: connection_update_def after_update_def Let_def on_qr_heap on_open_heap
        on_close_simps split: option.splits)

lemma connection_update_frame:
  "activeSessions (connection_update env a u st) = activeSessions st"
  "pairingCodes (connection_update env a u st) = pairingCodes st"
  "outbound (connection_update env a u st) = outbound st"
  "sockets (connection_update env a u st) = sockets st"
  "length (heap (connection_update env a u st)) = length (heap st)"
  by (simp_all add: connection_update_def Let_def on_qr_simps on_open_simps on_close_simps
        split: option.splits)

lemma after_update_fields:
  "id' (after_update env u s) = id' s"
  "pairingCode (after_update env u s) = pairingCode s"
  "socket (after_update env u s) = socket s"
  by (simp_all add: after_update_def Let_def split: option.splits)

lemma connection_update_timers:
  "a < length (heap st) \<Longrightarrow>
   timers (connection_update env a u st) =
     (if connection u = Some ''close'' \<and> lastDisconnect u \<noteq> Some loggedOut
      then timers st @ [id' (heap st ! a)] else timers st)"
  by (simp add: connection_update_def Let_def on_qr_simps on_open_simps on_close_simps
        on_qr_heap on_open_heap split: option.splits)

lemma post_pair_frame:
  "heap (snd (post_pair_with_code ok c p st)) = heap st"
  "activeSessions (snd (post_pair_with_code ok c p st)) = activeSessions st"
  "pairingCodes (snd (post_pair_with_code ok c p st)) = pairingCodes st"
  "timers (snd (post_pair_with_code ok c p st)) = timers st"
  "clients (snd (post_pair_with_code ok c p st)) = clients st"
  by (simp_all add: post_pair_with_code_def Let_def split: option.splits json.splits)

lemma client_get_qr_frame:
  "heap (client_get_qr c d st) = heap st"
  "activeSessions (client_get_qr c d st) = activeSessions st"
  "pairingCodes (client_get_qr c d st) = pairingCodes st"
  "timers (client_get_qr c d st) = timers st"
  "outbound (client_get_qr c d st) = outbound st"
  by (simp_all add: client_get_qr_def Let_def split: option.splits)

lemma step_cases:
  obtains
    (update) env a u where "step x st = connection_update env a u st"
  | (loaded) rnd now sid ls where
      "step x st = snd (createWhatsAppConnection_loaded rnd now sid (st\<lparr> loading := ls \<rparr>))"
  | (opened) a fs where
      "step x st = createWhatsAppConnection_opened a (st\<lparr> fetching := fs \<rparr>)"
  | (other) "heap (step x st) = heap st" "activeSessions (step x st) = activeSessions st"
      "pairingCodes (step x st) = pairingCodes st"
proof (cases x)
  case (Call sid)
  then show ?thesis using other by (simp add: createWhatsAppConnection_def)
next
  case (Loaded i outcome)
  show ?thesis
  proof (cases "i < length (loading st)")
    case False
    with Loaded show ?thesis using other by (simp add: load_settles_def)
  next
    case True
    show ?thesis
    proof (cases outcome)
      case None
      with Loaded True show ?thesis using other by (simp add: load_settles_def)
    next
      case (Some p)
      obtain rnd now where p: "p = (rnd, now)" by (cases p)
      with Loaded True Some
      have "step x st = snd (createWhatsAppConnection_loaded rnd now (loading st ! i)
                               (st\<lparr> loading := remove_nth i (loading st) \<rparr>))"
        by (simp add: load_settles_def)
      then show ?thesis by (rule loaded)
    qed
  qed
next
  case (Opened i ok)
  show ?thesis
  proof (cases "i < length (fetching st) \<and> ok")
    case False
    with Opened show ?thesis using other by (auto simp: open_settles_def)
  next
    case True
    with Opened
    have "step x st = createWhatsAppConnection_opened (fetching st ! i)
                        (st\<lparr> fetching := remove_nth i (fetching st) \<rparr>)"
      by (simp add: open_settles_def)
    then show ?thesis by (rule opened)
  qed
next
  case (Update env a u)
  then show ?thesis using update by simp
next
  case Timer
  then show ?thesis using other
    by (simp add: fire_timer_def createWhatsAppConnection_def split: list.splits)
next
  case (Http_create now sid)
  then show ?thesis using other
    by (simp add: post_create_session_def createWhatsAppConnection_def Let_def)
next
  case (Http_pair ok c p)
  then show ?thesis using other by (simp add: post_pair_frame)
next
  case Subscribe
  then show ?thesis using other by (simp add: io_connection_def)
next
  case (Client_create now sid)
  then show ?thesis using other
    by (simp add: client_create_session_def createWhatsAppConnection_def)
next
  case (Client_get_qr c d)
  then show ?thesis using other by (simp add: client_get_qr_frame)
qed

lemma wf_loaded:
  "wf st \<Longrightarrow> wf (snd (createWhatsAppConnection_loaded rnd now sid (st\<lparr> loading := ls \<rparr>)))"
proof -
  assume w: "wf st"
  have mono: "\<And>m. list_all (\<lambda>(k, a). a < length (heap st)) m \<Longrightarrow>
               list_all (\<lambda>(k, a). a < Suc (length (heap st))) m"
    by (auto simp: list_all_iff)
  show ?thesis using w
    by (simp add: loaded_eq wf_def distinct_map_set list_all_map_set mono)
qed

lemma wf_step: "wf st \<Longrightarrow> wf (step x st)"
proof (cases x st rule: step_cases)
  case (update env a u)
  assume "wf st"
  then show ?thesis by (simp add: update wf_def connection_update_frame)
next
  case (loaded rnd now sid ls)
  assume "wf st"
  then show ?thesis by (simp add: loaded wf_loaded)
next
  case (opened a fs)
  assume "wf st"
  then show ?thesis by (simp add: opened wf_def opened_simps)
next
  case other
  assume "wf st"
  then show ?thesis by (simp add: other wf_def)
qed

lemma wf_run: "wf st \<Longrightarrow> wf (run acts st)"
  by (induction acts arbitrary: st) (simp_all add: wf_step)

lemma wf_init: "wf init_server"
  by (simp add: wf_def init_server_def)

lemma wf_deref: "wf st \<Longrightarrow> map_get (activeSessions st) k = Some a \<Longrightarrow> a < length (heap st)"
  by (auto simp: wf_def map_get_def list_all_iff dest: map_of_SomeD)

lemma wf_deref_code: "wf st \<Longrightarrow> map_get (pairingCodes st) k = Some a \<Longrightarrow> a < length (heap st)"
  by (auto simp: wf_def map_get_def list_all_iff dest: map_of_SomeD)

section \<open>Scenario states, evaluated\<close>


lemma s_created_eval:
  "s_created =
     \<lparr> heap = [\<lparr> id' = ''A'', pairingCode = ''AAAAAAAA'', qr = None, status = ''initializing'',
                socket = Some 0, authState = ''ian_tech_auth/A'', createdAt = 1, user = None,
                qrImage = None \<rparr>],
       activeSessions = [(''A'', 0)], pairingCodes = [(''AAAAAAAA'', 0)], timers = [],
       clients = [], outbound = [], sockets = 1, loading = [], fetching = [] \<rparr>"
  by code_simp

lemma s_connected_eval:
  "s_connected =
     \<lparr> heap = [\<lparr> id' = ''A'', pairingCode = ''AAAAAAAA'', qr = Some ''2@abc'',
                status = ''connected'', socket = Some 0, authState = ''ian_tech_auth/A'',
                createdAt = 1,
                user = Some \<lparr> user_id = ''254700000000:7@s.whatsapp.net'',
                              user_name = ''Unknown'', user_phone = ''254700000000'' \<rparr>,
                qrImage = Some ''data:2@abc'' \<rparr>],
       activeSessions = [(''A'', 0)], pairingCodes = [(''AAAAAAAA'', 0)], timers = [],
       clients = [], outbound = [], sockets = 1, loading = [], fetching = [] \<rparr>"
  by code_simp

lemma remove_nth_last [simp]: "remove_nth (length xs) (xs @ [x]) = xs"
  by (simp add: remove_nth_def)

lemma s_two_eval:
  "s_two =
     \<lparr> heap = [\<lparr> id' = ''A'', pairingCode = ''AAAAAAAA'', qr = None, status = ''initializing'',
                socket = Some 0, authState = ''ian_tech_auth/A'', createdAt = 1, user = None,
                qrImage = None \<rparr>,
              \<lparr> id' = ''B'', pairingCode = ''AAAAAAAA'', qr = None, status = ''initializing'',
                socket = Some 1, authState = ''ian_tech_auth/B'', createdAt = 2, user = None,
                qrImage = None \<rparr>],
       activeSessions = [(''A'', 0), (''B'', 1)], pairingCodes = [(''AAAAAAAA'', 1)],
       timers = [], clients = [], outbound = [], sockets = 2, loading = [], fetching = [] \<rparr>"
  by code_simp

lemma s_default_reconnected_eval:
  "s_default_reconnected =
     \<lparr> heap = [\<lparr> id' = ''IAN-TECH-5'', pairingCode = ''AAAAAAAA'', qr = None,
                status = ''disconnected'', socket = Some 0, authState = ''ian_tech_auth'',
                createdAt = 5, user = None, qrImage = None \<rparr>,
              \<lparr> id' = ''IAN-TECH-5'', pairingCode = ''AAAAAAAA'', qr = None,
                status = ''initializing'', socket = Some 1,
                authState = ''ian_tech_auth/IAN-TECH-5'', createdAt = 7, user = None,
                qrImage = None \<rparr>],
       activeSessions = [(''default'', 0), (''IAN-TECH-5'', 1)],
       pairingCodes = [(''AAAAAAAA'', 1)], timers = [], clients = [], outbound = [],
       sockets = 2, loading = [], fetching = [] \<rparr>"
  by code_simp

lemma s_http_no_id_eval:
  "s_http_no_id =
     \<lparr> heap = [\<lparr> id' = ''IAN-TECH-42'', pairingCode = ''AAAAAAAA'', qr = None,
                status = ''initializing'', socket = None,
                authState = ''ian_tech_auth/IAN-TECH-42'', createdAt = 43, user = None,
                qrImage = None \<rparr>],
       activeSessions = [(''IAN-TECH-42'', 0)], pairingCodes = [(''AAAAAAAA'', 0)],
       timers = [], clients = [], outbound = [], sockets = 0, loading = [], fetching = [0] \<rparr>"
  by code_simp

lemma s_recreated_eval:
  "s_recreated =
     \<lparr> heap = [\<lparr> id' = ''A'', pairingCode = ''AAAAAAAA'', qr = Some ''2@abc'',
                status = ''connected'', socket = Some 0, authState = ''ian_tech_auth/A'',
                createdAt = 1,
                user = Some \<lparr> user_id = ''254700000000:7@s.whatsapp.net'',
                              user_name = ''Unknown'', user_phone = ''254700000000'' \<rparr>,
                qrImage = Some ''data:2@abc'' \<rparr>,
              \<lparr> id' = ''A'', pairingCode = ''AAAAAAAA'', qr = None, status = ''initializing'',
                socket = None, authState = ''ian_tech_auth/A'', createdAt = 4, user = None,
                qrImage = None \<rparr>],
       activeSessions = [(''A'', 1)], pairingCodes = [(''AAAAAAAA'', 1)], timers = [],
       clients = [], outbound = [], sockets = 1, loading = [], fetching = [1] \<rparr>"
  by code_simp

lemma show_nat_5: "show_nat 5 = ''5''"
  by (simp add: show_nat.simps digit_char_def)

lemma s_default_qr_eval:
  "s_default_qr =
     \<lparr> heap = [\<lparr> id' = ''IAN-TECH-5'', pairingCode = ''AAAAAAAA'', qr = Some ''2@abc'',
                status = ''qr_ready'', socket = Some 0, authState = ''ian_tech_auth'',
                createdAt = 5, user = None, qrImage = Some ''data:2@abc'' \<rparr>],
       activeSessions = [(''default'', 0)], pairingCodes = [(''AAAAAAAA'', 0)], timers = [],
       clients = [], outbound = [], sockets = 1, loading = [], fetching = [] \<rparr>"
  by code_simp

lemma s_logged_out_eval:
  "s_logged_out =
     \<lparr> heap = [\<lparr> id' = ''A'', pairingCode = ''AAAAAAAA'', qr = Some ''2@abc'',
                status = ''disconnected'', socket = Some 0, authState = ''ian_tech_auth/A'',
                createdAt = 1,
                user = Some \<lparr> user_id = ''254700000000:7@s.whatsapp.net'',
                              user_name = ''Unknown'', user_phone = ''254700000000'' \<rparr>,
                qrImage = Some ''data:2@abc'' \<rparr>],
       activeSessions = [(''A'', 0)], pairingCodes = [(''AAAAAAAA'', 0)], timers = [],
       clients = [], outbound = [], sockets = 1, loading = [], fetching = [] \<rparr>"
  by (simp add: s_logged_out_def s_connected_eval connection_update_def close_event_def
        on_close_def modify_def io_emit_def Let_def)

section \<open>Pairing verification\<close>

text \<open>
  Claim C7 as stated fails. Session \<open>A\<close> is \<open>initializing\<close> and its pairing code
  resolves; a request with that code and the JSON number 254700000000 as phone number is
  answered with 500, not with a 4xx result. With a phone number string of the wrong
  shape the answer is the 400 of the shape check, which precedes the lookup, not the
  error of the status test.
\<close>

theorem pair_with_code_number_phone:
  "map_get (pairingCodes s_created) ''AAAAAAAA'' = Some 0 \<and>
   status (heap s_created ! 0) = ''initializing'' \<and>
   post_pair_with_code True (Some (JString ''AAAAAAAA'')) (Some (JNumber 254700000000)) s_created =
     (Json 500 (Error ''phoneNumber.replace is not a function''), s_created) \<and>
   post_pair_with_code True (Some (JString ''AAAAAAAA'')) (Some (JString ''0700000000'')) s_created =
     (Json 400 (Error ''Phone number must be in format: +254723278526''), s_created)"
  by (simp add: s_created_eval map_get_def post_pair_with_code_def js_truthy_def is_digit_def)

text \<open>
  Claim C7, amended. A request to \<open>POST /api/pair-with-code\<close> whose code resolves to a
  session succeeds (200) only when that session's status is \<open>connected\<close>, and for every
  other status no \<open>sendMessage\<close> call is made, whatever the phone number field holds.
  When the phone number is a string (or falsy), every other status gets a 400 error;
  when the request passes the input checks that precede the lookup, the error is the
  one of the status test, "Session not connected yet". The route never changes a
  session record or either map, so on success the status is unchanged.
\<close>

theorem pair_with_code_requires_connected:
  assumes "map_get (pairingCodes st) code = Some a" and "deref st a = Some s"
  shows "case post_pair_with_code send_ok (Some (JString code)) phone st of (resp, st') \<Rightarrow>
           ((\<exists>b. resp = Json 200 b) \<longrightarrow> status s = ''connected'') \<and>
           (status s \<noteq> ''connected'' \<longrightarrow> outbound st' = outbound st) \<and>
           (status s \<noteq> ''connected'' \<and> (\<not> js_truthy phone \<or> (\<exists>p. phone = Some (JString p))) \<longrightarrow>
              (\<exists>e. resp = Json 400 (Error e))) \<and>
           (\<forall>p. status s \<noteq> ''connected'' \<and> code \<noteq> [] \<and> phone = Some (JString p) \<and>
              take 3 (filter is_digit p) = ''254'' \<and> length (filter is_digit p) = 12 \<longrightarrow>
              resp = Json 400 (Error ''Session not connected yet'')) \<and>
           heap st' = heap st \<and> activeSessions st' = activeSessions st \<and>
           pairingCodes st' = pairingCodes st"
  using assms
  by (auto simp: post_pair_with_code_def Let_def js_truthy_def
      split: option.splits json.splits)

theorem pair_with_code_requires_connected_witness:
  "post_pair_with_code True (Some (JString ''AAAAAAAA'')) (Some (JString ''+254700000000''))
     s_created = (Json 400 (Error ''Session not connected yet''), s_created) \<and>
   fst (post_pair_with_code True (Some (JString ''AAAAAAAA'')) (Some (JString ''+254700000000''))
     s_connected) = Json 200 (Paired ''A'') \<and>
   status (heap (snd (post_pair_with_code True (Some (JString ''AAAAAAAA''))
     (Some (JString ''+254700000000'')) s_connected)) ! 0) = ''connected''"
  using pair_with_code_requires_connected [where st = s_created and code = "''AAAAAAAA''"
      and a = 0 and s = "heap s_created ! 0" and send_ok = True
      and phone = "Some (JString ''+254700000000'')"]
    pair_with_code_requires_connected [where st = s_connected and code = "''AAAAAAAA''"
      and a = 0 and s = "heap s_connected ! 0" and send_ok = True
      and phone = "Some (JString ''+254700000000'')"]
  by (simp add: s_created_eval s_connected_eval post_pair_with_code_def map_get_def deref_def
        js_truthy_def is_digit_def Let_def)

section \<open>The QR image route\<close>

text \<open>
  Claim C10. When the requested session id is not a key of \<open>activeSessions\<close>, the route
  \<open>GET /api/qr/:sessionId\<close> uses the record stored under \<open>'default'\<close>: it answers with
  the rendering of that record's QR challenge when it has one (500 if the renderer
  throws), and it answers 404 exactly when there is no record under \<open>'default'\<close> or that
  record has no stored challenge.
\<close>

theorem qr_route_falls_back_to_default:
  assumes "wf st" and "map_get (activeSessions st) sessionId = None"
  shows "get_api_qr toBuffer sessionId st =
           (case map_get (activeSessions st) ''default'' of
              None \<Rightarrow> Json 404 (Error ''QR code not available'')
            | Some a \<Rightarrow>
                if \<not> truthy (qr (heap st ! a)) then Json 404 (Error ''QR code not available'')
                else (case toBuffer (or_else (qr (heap st ! a)) []) of
                        None \<Rightarrow> Json 500 (Error ''render failed'')
                      | Some qrImg \<Rightarrow> Png qrImg)) \<and>
         ((\<exists>e. get_api_qr toBuffer sessionId st = Json 404 e) \<longleftrightarrow>
            (case map_get (activeSessions st) ''default'' of
               None \<Rightarrow> True
             | Some a \<Rightarrow> \<not> truthy (qr (heap st ! a))))"
proof (cases "map_get (activeSessions st) ''default''")
  case None
  with assms show ?thesis by (simp add: get_api_qr_def)
next
  case (Some a)
  with assms have "a < length (heap st)" by (simp add: wf_deref)
  with Some assms show ?thesis
    by (simp add: get_api_qr_def deref_def split: option.splits)
qed

theorem qr_route_falls_back_to_default_witness:
  "get_api_qr render0 ''B'' s_default_qr = Png ''png:2@abc'' \<and>
   get_api_qr render0 ''B'' s_created = Json 404 (Error ''QR code not available'')"
proof -
  have w1: "wf s_default_qr" unfolding s_default_qr_def by (rule wf_run [OF wf_init])
  have w2: "wf s_created" unfolding s_created_def by (rule wf_run [OF wf_init])
  have n1: "map_get (activeSessions s_default_qr) ''B'' = None"
    by (simp add: s_default_qr_eval map_get_def)
  have n2: "map_get (activeSessions s_created) ''B'' = None"
    by (simp add: s_created_eval map_get_def)
  show ?thesis
    using qr_route_falls_back_to_default [OF w1 n1, of render0]
      qr_route_falls_back_to_default [OF w2 n2, of render0]
    by (simp add: s_default_qr_eval s_created_eval map_get_def truthy_def or_else_def render0_def)
qed

section \<open>The key of a session created without an id\<close>

text \<open>
  Claim C9 as stated fails. A creation request without an id is stored under the id the
  route generates, not under \<open>'default'\<close>, and the lookup by that id finds it. And once
  the default session has reconnected, the lookup by the id of the record under
  \<open>'default'\<close> finds a record.
\<close>

theorem session_without_id_not_under_default:
  "fst (post_create_session 42 None init_server) = Json 200 (Created None None) \<and>
   map_get (activeSessions s_http_no_id) ''default'' = None \<and>
   map_get (activeSessions s_http_no_id) ''IAN-TECH-42'' = Some 0 \<and>
   id' (heap s_http_no_id ! 0) = ''IAN-TECH-42'' \<and>
   map_get (activeSessions s_default_reconnected) ''default'' = Some 0 \<and>
   id' (heap s_default_reconnected ! 0) = ''IAN-TECH-5'' \<and>
   map_get (activeSessions s_default_reconnected) ''IAN-TECH-5'' = Some 1"
  by (simp add: s_http_no_id_eval s_default_reconnected_eval map_get_def
        post_create_session_def Let_def)

text \<open>
  Claim C9, amended. When \<open>createWhatsAppConnection\<close> was called without a session id
  (or with a falsy one), as the start-up call does, its second stage stores the new
  record under the key \<open>'default'\<close>, while the record's \<open>id\<close> field is
  \<open>IAN-TECH-<timestamp>\<close>. At that moment \<open>'default'\<close> is the only key that retrieves the
  record, and a lookup by its id finds what it found before: not-found when no record
  was stored under that string. A creation request without an id, by HTTP or by
  socket.io, generates \<open>IAN-TECH-<timestamp>\<close> itself and passes it to the call: its
  record has that id and is retrieved by that id only.
\<close>

theorem default_session_key:
  assumes "wf st" and "\<not> truthy sessionId"
  shows "(case createWhatsAppConnection_loaded rnd now sessionId st of (a, st') \<Rightarrow>
            id' (heap st' ! a) = ''IAN-TECH-'' @ show_nat now \<and>
            map_get (activeSessions st') ''default'' = Some a \<and>
            map_get (activeSessions st') (id' (heap st' ! a)) =
              map_get (activeSessions st) (''IAN-TECH-'' @ show_nat now) \<and>
            (map_get (activeSessions st) (''IAN-TECH-'' @ show_nat now) = None \<longrightarrow>
               map_get (activeSessions st') (id' (heap st' ! a)) = None) \<and>
            (\<forall>k. map_get (activeSessions st') k = Some a \<longleftrightarrow> k = ''default'')) \<and>
         snd (post_create_session now sessionId st) =
           createWhatsAppConnection (Some (''IAN-TECH-'' @ show_nat now)) st \<and>
         client_create_session now sessionId st =
           createWhatsAppConnection (Some (''IAN-TECH-'' @ show_nat now)) st \<and>
         (case createWhatsAppConnection_loaded rnd now' (Some (''IAN-TECH-'' @ show_nat now)) st of
            (a, st') \<Rightarrow>
              id' (heap st' ! a) = ''IAN-TECH-'' @ show_nat now \<and>
              (\<forall>k. map_get (activeSessions st') k = Some a \<longleftrightarrow> k = ''IAN-TECH-'' @ show_nat now))"
proof -
  have fresh: "map_get (activeSessions st) k \<noteq> Some (length (heap st))" for k
    using wf_deref [OF assms(1), of k "length (heap st)"] by auto
  from assms(2) consider "sessionId = None" | "sessionId = Some []"
    by (auto simp: truthy_def split: option.splits)
  then show ?thesis
  proof cases
    case 1
    with fresh show ?thesis
      by (simp add: loaded_eq or_else_def map_get_map_set post_create_session_def
            client_create_session_def Let_def)
  next
    case 2
    with fresh show ?thesis
      by (simp add: loaded_eq or_else_def map_get_map_set post_create_session_def
            client_create_session_def Let_def)
  qed
qed

theorem default_session_key_witness:
  "id' (heap (snd (createWhatsAppConnection_loaded rnd0 5 None init_server)) ! 0) = ''IAN-TECH-5'' \<and>
   map_get (activeSessions (snd (createWhatsAppConnection_loaded rnd0 5 None init_server)))
     ''default'' = Some 0 \<and>
   map_get (activeSessions (snd (createWhatsAppConnection_loaded rnd0 5 None init_server)))
     ''IAN-TECH-5'' = None \<and>
   snd (post_create_session 5 None init_server) =
     createWhatsAppConnection (Some ''IAN-TECH-5'') init_server"
  using default_session_key [OF wf_init, where sessionId = None and rnd = rnd0 and now = 5
      and now' = 6]
  by (simp add: loaded_eq truthy_def or_else_def init_server_def map_get_def show_nat_5)

section \<open>Delivery to socket.io clients\<close>

lemma extends_refl: "extends st st"
  by (simp add: extends_def)

lemma extends_same: "clients st' = clients st \<Longrightarrow> extends st st'"
  by (simp add: extends_def)

lemma extends_trans: "extends s1 s2 \<Longrightarrow> extends s2 s3 \<Longrightarrow> extends s1 s3"
  unfolding extends_def
proof (intro conjI allI impI)
  assume h: "length (clients s1) \<le> length (clients s2) \<and>
     (\<forall>c<length (clients s1). \<exists>rest. clients s2 ! c = clients s1 ! c @ rest)"
    "length (clients s2) \<le> length (clients s3) \<and>
     (\<forall>c<length (clients s2). \<exists>rest. clients s3 ! c = clients s2 ! c @ rest)"
  then show "length (clients s1) \<le> length (clients s3)" by simp
  fix c assume c: "c < length (clients s1)"
  with h obtain r1 where r1: "clients s2 ! c = clients s1 ! c @ r1" by blast
  from c h have "c < length (clients s2)" by simp
  with h obtain r2 where r2: "clients s3 ! c = clients s2 ! c @ r2" by blast
  from r1 r2 have "clients s3 ! c = clients s1 ! c @ (r1 @ r2)" by simp
  then show "\<exists>rest. clients s3 ! c = clients s1 ! c @ rest" ..
qed

lemma extends_io_emit: "extends st (io_emit ev st)"
  by (simp add: extends_def io_emit_def)

lemma extends_modify: "extends st (modify a f st)"
  by (simp add: extends_def modify_def)

lemma extends_on_qr: "extends st (on_qr env a q st)"
  by (auto simp: on_qr_def Let_def split: option.splits
      intro: extends_modify extends_trans [OF extends_modify extends_trans [OF extends_modify extends_io_emit]])

lemma extends_on_open: "extends st (on_open env a st)"
  by (auto simp: on_open_def Let_def split: option.splits prod.splits
      intro: extends_trans [OF extends_modify extends_io_emit]
        extends_trans [OF extends_modify extends_trans [OF extends_modify extends_io_emit]])

lemma extends_on_close: "extends st (on_close a c st)"
  by (simp add: extends_def on_close_def Let_def io_emit_def modify_def)

lemma extends_connection_update: "extends st (connection_update env a u st)"
proof -
  have 1: "extends st (case qr_code u of None \<Rightarrow> st | Some q \<Rightarrow> if q = [] then st else on_qr env a q st)"
    (is "extends st ?s1")
    by (simp add: extends_refl extends_on_qr split: option.splits)
  have 2: "extends ?s1 (if connection u = Some ''open'' then on_open env a ?s1 else ?s1)"
    (is "extends ?s1 ?s2")
    by (simp add: extends_refl extends_on_open)
  have 3: "extends ?s2 (if connection u = Some ''close'' then on_close a (lastDisconnect u) ?s2 else ?s2)"
    by (simp add: extends_refl extends_on_close)
  show ?thesis
    using extends_trans [OF 1 extends_trans [OF 2 3]]
    by (simp add: connection_update_def Let_def extends_refl)
qed

lemma extends_step: "extends st (step x st)"
proof (cases x)
  case (Call sid)
  then show ?thesis by (simp add: createWhatsAppConnection_def extends_def)
next
  case (Loaded i outcome)
  then show ?thesis
    by (simp add: load_settles_def loaded_eq extends_def Let_def
          split: option.splits prod.splits)
next
  case (Opened i ok)
  then show ?thesis
    by (simp add: open_settles_def opened_simps extends_def Let_def)
next
  case (Update env a u)
  then show ?thesis by (simp add: extends_connection_update)
next
  case Timer
  then show ?thesis
    by (simp add: fire_timer_def createWhatsAppConnection_def extends_def split: list.splits)
next
  case (Http_create now sid)
  then show ?thesis
    by (simp add: post_create_session_def createWhatsAppConnection_def Let_def extends_def)
next
  case (Http_pair ok c p)
  then show ?thesis by (simp add: post_pair_frame extends_same)
next
  case Subscribe
  then show ?thesis by (simp add: io_connection_def extends_def nth_append)
next
  case (Client_create now sid)
  then show ?thesis
    by (simp add: client_create_session_def createWhatsAppConnection_def extends_def)
next
  case (Client_get_qr c d)
  then show ?thesis
    by (auto simp: client_get_qr_def extends_def nth_list_update split: option.splits)
qed

lemma extends_run: "extends st (run acts st)"
proof (induction acts arbitrary: st)
  case Nil
  show ?case by (simp add: extends_refl)
next
  case (Cons x xs)
  show ?case using extends_trans [OF extends_step Cons.IH] by simp
qed

lemma length_snapshot: "length (snapshot st) = length (activeSessions st)"
  by (simp add: snapshot_def)

text \<open>
  Claim C8. A client that connects has \<open>init\<close> as the first event of its inbox; the
  snapshot in it has one summary per entry of \<open>activeSessions\<close> (the size of the map
  at that moment), and whatever happens afterwards is delivered after it: after any
  run the inbox still starts with that \<open>init\<close>.
\<close>

theorem subscriber_receives_snapshot_first:
  "clients (io_connection st) ! length (clients st) = [Init (snapshot st)] \<and>
   length (snapshot st) = length (activeSessions st) \<and>
   (wf st \<longrightarrow> length (snapshot st) = card (dom (map_get (activeSessions st)))) \<and>
   (\<exists>rest. clients (run acts (io_connection st)) ! length (clients st) =
              Init (snapshot st) # rest)"
proof -
  have first: "clients (io_connection st) ! length (clients st) = [Init (snapshot st)]"
    by (simp add: io_connection_def)
  have c: "length (clients st) < length (clients (io_connection st))"
    by (simp add: io_connection_def)
  have "extends (io_connection st) (run acts (io_connection st))" by (rule extends_run)
  with c first have later: "\<exists>rest. clients (run acts (io_connection st)) ! length (clients st) =
      Init (snapshot st) # rest"
    by (auto simp: extends_def)
  have card: "wf st \<Longrightarrow> length (snapshot st) = card (dom (map_get (activeSessions st)))"
  proof -
    assume "wf st"
    then have d: "distinct (map fst (activeSessions st))" by (simp add: wf_def)
    have "map_get (activeSessions st) = map_of (activeSessions st)"
      by (rule ext) (simp add: map_get_def)
    then have "dom (map_get (activeSessions st)) = set (map fst (activeSessions st))"
      by (simp add: dom_map_of_conv_image_fst)
    then show ?thesis
      using distinct_card [OF d] by (simp add: length_snapshot)
  qed
  from first later card show ?thesis by (simp add: length_snapshot)
qed

theorem subscriber_receives_snapshot_first_witness:
  "length (snapshot s_two) = 2 \<and> card (dom (map_get (activeSessions s_two))) = 2 \<and>
   clients (io_connection s_two) ! 0 = [Init (snapshot s_two)] \<and>
   hd (clients (run [Update env0 0 qr_event, Update env0 1 open_event] (io_connection s_two)) ! 0) =
     Init (snapshot s_two)"
proof -
  have w: "wf s_two" unfolding s_two_def s_created_def by (intro wf_run wf_init)
  have l: "length (clients s_two) = 0" by (simp add: s_two_eval)
  show ?thesis
    using subscriber_receives_snapshot_first [of s_two "[Update env0 0 qr_event, Update env0 1 open_event]"] w l
    by (auto simp: s_two_eval)
qed

section \<open>Uniqueness in the registry\<close>











section \<open>Close events\<close>

text \<open>
  Claim C2 as stated fails. After a close event with the logged-out status code on the
  connected session \<open>A\<close>, the status is \<open>disconnected\<close>, the value every close event
  gives, and the lookup by the session's pairing code still returns the session.
\<close>

theorem logged_out_keeps_pairing_code:
  "status (heap s_connected ! 0) = ''connected'' \<and>
   status (heap s_logged_out ! 0) = ''disconnected'' \<and>
   map_get (pairingCodes s_logged_out) (pairingCode (heap s_logged_out ! 0)) = Some 0"
  by (simp add: s_logged_out_eval s_connected_eval map_get_def)

text \<open>
  Claim C2, amended. A close event classified logged-out sets the status to
  \<open>disconnected\<close> and schedules no reconnection; both maps are unchanged, so the pairing
  code stays in the registry. The single-connection server likewise sets
  \<open>disconnected\<close> and schedules nothing.
\<close>

theorem logged_out_close:
  assumes "a < length (heap st)" and "connection u = Some ''close''"
    and "lastDisconnect u = Some loggedOut"
  shows "status (heap (connection_update env a u st) ! a) = ''disconnected'' \<and>
         timers (connection_update env a u st) = timers st \<and>
         pairingCodes (connection_update env a u st) = pairingCodes st \<and>
         activeSessions (connection_update env a u st) = activeSessions st \<and>
         pairingCode (heap (connection_update env a u st) ! a) = pairingCode (heap st ! a) \<and>
         bot_status (bot_connection_update u b) = ''disconnected'' \<and>
         bot_timers (bot_connection_update u b) = bot_timers b"
  using assms
  by (simp add: connection_update_heap connection_update_frame connection_update_timers
        after_update_fields after_update_def bot_connection_update_def Let_def
        split: option.splits)

theorem logged_out_close_witness:
  "status (heap (connection_update env0 0 (close_event (Some loggedOut)) s_connected) ! 0) =
     ''disconnected'' \<and>
   timers (connection_update env0 0 (close_event (Some loggedOut)) s_connected) = [] \<and>
   map_get (pairingCodes (connection_update env0 0 (close_event (Some loggedOut)) s_connected))
     ''AAAAAAAA'' = Some 0"
  using logged_out_close [where st = s_connected and a = 0 and env = env0
      and u = "close_event (Some loggedOut)" and b = init_bot]
  by (simp add: s_connected_eval close_event_def map_get_def)

text \<open>
  Claim C3 as stated fails. Two close events that are not logged-out, arriving before any
  timer fires, leave two reconnection timers pending for session \<open>A\<close>.
\<close>

theorem two_closes_two_timers:
  "timers s_connected = [] \<and> timers s_closed_twice = [''A'', ''A'']"
  by (simp add: s_closed_twice_def s_connected_eval connection_update_def close_event_def
        on_close_def modify_def io_emit_def Let_def loggedOut_def)

lemma update_keeps_id:
  "a < length (heap st) \<Longrightarrow> id' (heap (connection_update env a u st) ! a) = id' (heap st ! a)"
  by (simp add: connection_update_heap after_update_fields)

lemma timers_replicate:
  assumes "connection u = Some ''close''" and "lastDisconnect u \<noteq> Some loggedOut"
  shows "a < length (heap st) \<Longrightarrow>
         timers (run (replicate n (Update env a u)) st) = timers st @ replicate n (id' (heap st ! a))"
proof (induction n arbitrary: st)
  case 0
  show ?case by simp
next
  case (Suc n)
  let ?st = "connection_update env a u st"
  from Suc.prems have l: "a < length (heap ?st)" by (simp add: connection_update_frame)
  have "timers (run (replicate n (Update env a u)) ?st) =
        timers ?st @ replicate n (id' (heap ?st ! a))"
    by (rule Suc.IH [OF l])
  with Suc.prems assms show ?case
    by (simp add: connection_update_timers update_keeps_id replicate_app_Cons_same)
qed

text \<open>
  Claim C3, amended. Each close event that is not logged-out schedules exactly one
  reconnection timer for the session's id, and nothing removes duplicates: \<open>n\<close> such
  events leave \<open>n\<close> more timers pending. The single-connection server schedules one
  timer per such event too; there, when two pending timers fire one after the other and
  the first connection attempt is still in progress, the \<open>isConnecting\<close> test makes the
  second do nothing, so one connection is opened.
\<close>

theorem close_schedules_one_timer:
  assumes "a < length (heap st)" and "connection u = Some ''close''"
    and "lastDisconnect u \<noteq> Some loggedOut"
  shows "timers (connection_update env a u st) = timers st @ [id' (heap st ! a)] \<and>
         timers (run (replicate n (Update env a u)) st) =
           timers st @ replicate n (id' (heap st ! a)) \<and>
         bot_timers (bot_connection_update u b) = bot_timers b + 1 \<and>
         bot_timers (bot_connection_update u (bot_connection_update u b)) = bot_timers b + 2 \<and>
         attempts (bot_fire_timer ok
           (bot_fire_timer True (bot_connection_update u (bot_connection_update u b)))) =
           attempts b + 1"
proof -
  have 1: "timers (connection_update env a u st) = timers st @ [id' (heap st ! a)]"
    using assms by (simp add: connection_update_timers)
  have 2: "timers (run (replicate n (Update env a u)) st) =
           timers st @ replicate n (id' (heap st ! a))"
    using assms by (simp add: timers_replicate)
  have 3: "bot_timers (bot_connection_update u b) = bot_timers b + 1" for b
    using assms by (simp add: bot_connection_update_def Let_def split: option.splits)
  have 4: "isConnecting (bot_connection_update u b) = False" for b
    using assms by (simp add: bot_connection_update_def Let_def split: option.splits)
  have 5: "attempts (bot_connection_update u b) = attempts b" for b
    using assms by (simp add: bot_connection_update_def Let_def split: option.splits)
  let ?b2 = "bot_connection_update u (bot_connection_update u b)"
  have 6: "attempts (bot_fire_timer ok (bot_fire_timer True ?b2)) = attempts b + 1"
    by (simp add: bot_fire_timer_def connectToWhatsApp_def Let_def 3 4 5)
  from 1 2 3 6 show ?thesis by simp
qed

theorem close_schedules_one_timer_witness:
  "timers (connection_update env0 0 (close_event None) s_connected) = [''A''] \<and>
   timers (run (replicate 3 (Update env0 0 (close_event None))) s_connected) =
     [''A'', ''A'', ''A''] \<and>
   bot_timers (bot_connection_update (close_event None)
     (bot_connection_update (close_event None) init_bot)) = 2"
  using close_schedules_one_timer [where st = s_connected and a = 0 and env = env0
      and u = "close_event None" and n = 3 and b = init_bot and ok = True]
  by (simp add: s_connected_eval close_event_def init_bot_def numeral_3_eq_3)

section \<open>The stored challenge and the status\<close>

text \<open>
  Claim C4 as stated fails. After a challenge event and an open event, session \<open>A\<close> is
  \<open>connected\<close> and still stores the challenge.
\<close>

theorem challenge_kept_after_open:
  "status (heap s_connected ! 0) = ''connected'' \<and> qr (heap s_connected ! 0) = Some ''2@abc''"
  by (simp add: s_connected_eval)

lemma after_update_qr_ready:
  "status s = ''qr_ready'' \<longrightarrow> truthy (qr s) \<Longrightarrow>
   status (after_update env u s) = ''qr_ready'' \<longrightarrow> truthy (qr (after_update env u s))"
  by (auto simp: after_update_def Let_def truthy_def split: option.splits if_splits)

lemma after_update_keeps_qr:
  "truthy (qr s) \<Longrightarrow> truthy (qr (after_update env u s))"
  by (auto simp: after_update_def Let_def truthy_def split: option.splits)

lemma qr_inv_step: "qr_inv st \<Longrightarrow> qr_inv (step x st)"
proof (cases x st rule: step_cases)
  case (update env a u)
  assume i: "qr_inv st"
  show ?thesis
  proof (cases "a < length (heap st)")
    case True
    with i have "status (heap st ! a) = ''qr_ready'' \<longrightarrow> truthy (qr (heap st ! a))"
      by (simp add: qr_inv_def list_all_length)
    then have "status (after_update env u (heap st ! a)) = ''qr_ready'' \<longrightarrow>
        truthy (qr (after_update env u (heap st ! a)))"
      by (rule after_update_qr_ready)
    with i True show ?thesis
      by (simp add: update qr_inv_def connection_update_heap list_all_length nth_list_update)
  next
    case False
    with i show ?thesis by (simp add: update connection_update_def)
  qed
next
  case (loaded rnd now sid ls)
  assume "qr_inv st"
  then show ?thesis by (simp add: loaded loaded_eq qr_inv_def)
next
  case (opened a fs)
  assume "qr_inv st"
  then show ?thesis
    by (auto simp: opened opened_simps qr_inv_def list_all_length nth_list_update_any)
next
  case other
  assume "qr_inv st"
  then show ?thesis by (simp add: other qr_inv_def)
qed

lemma qr_inv_run: "qr_inv st \<Longrightarrow> qr_inv (run acts st)"
  by (induction acts arbitrary: st) (simp_all add: qr_inv_step)

lemma qr_kept_step:
  assumes "a < length (heap st)" and "truthy (qr (heap st ! a))"
  shows "a < length (heap (step x st)) \<and> truthy (qr (heap (step x st) ! a))"
proof (cases x st rule: step_cases)
  case (update env a' u)
  show ?thesis
  proof (cases "a' < length (heap st)")
    case True
    with assms show ?thesis
      by (simp add: update connection_update_heap nth_list_update after_update_keeps_qr)
  next
    case False
    with assms show ?thesis by (simp add: update connection_update_def)
  qed
next
  case (loaded rnd now sid ls)
  with assms show ?thesis by (simp add: loaded_eq nth_append)
next
  case (opened a' fs)
  with assms show ?thesis by (auto simp: opened_simps nth_list_update_any)
next
  case other
  with assms show ?thesis by simp
qed

lemma qr_kept_run:
  "a < length (heap st) \<Longrightarrow> truthy (qr (heap st ! a)) \<Longrightarrow>
   a < length (heap (run acts st)) \<and> truthy (qr (heap (run acts st) ! a))"
proof (induction acts arbitrary: st)
  case Nil
  then show ?case by simp
next
  case (Cons x xs)
  from qr_kept_step [OF Cons.prems, of x]
  have "a < length (heap (step x st))" "truthy (qr (heap (step x st) ! a))" by simp_all
  then show ?case using Cons.IH by simp
qed

text \<open>
  Claim C4, amended. In every reachable state a record whose status is \<open>qr_ready\<close> stores
  a challenge. The converse does not hold: no step clears a stored challenge, so from any
  state a record that stores one still stores it after any run.
\<close>

theorem qr_ready_has_challenge:
  "(\<forall>a < length (heap (run acts init_server)).
      status (heap (run acts init_server) ! a) = ''qr_ready'' \<longrightarrow>
      truthy (qr (heap (run acts init_server) ! a))) \<and>
   (\<forall>a < length (heap st).
      truthy (qr (heap st ! a)) \<longrightarrow> truthy (qr (heap (run acts' st) ! a)))"
proof -
  have "qr_inv init_server" by (simp add: qr_inv_def init_server_def)
  then have "qr_inv (run acts init_server)" by (rule qr_inv_run)
  then show ?thesis
    by (simp add: qr_inv_def list_all_length qr_kept_run)
qed

theorem qr_ready_has_challenge_witness:
  "status (heap s_default_qr ! 0) = ''qr_ready'' \<and> truthy (qr (heap s_default_qr ! 0)) \<and>
   truthy (qr (heap (run [Update env0 0 open_event] s_default_qr) ! 0)) \<and>
   status (heap (run [Update env0 0 open_event] s_default_qr) ! 0) = ''connected''"
proof -
  note t = qr_ready_has_challenge [where acts = "[Call None, Loaded 0 (Some (rnd0, 5)),
      Opened 0 True, Update env0 0 qr_event]"
      and st = s_default_qr and acts' = "[Update env0 0 open_event]", folded s_default_qr_def]
  have l: "0 < length (heap s_default_qr)" and s: "status (heap s_default_qr ! 0) = ''qr_ready''"
    by (simp_all add: s_default_qr_eval)
  from t l s have q: "truthy (qr (heap s_default_qr ! 0))" by blast
  with t l have q': "truthy (qr (heap (run [Update env0 0 open_event] s_default_qr) ! 0))"
    by blast
  have c: "status (heap (run [Update env0 0 open_event] s_default_qr) ! 0) = ''connected''"
    by (simp add: s_default_qr_eval connection_update_heap after_update_def open_event_def
          Let_def)
  from s q q' c show ?thesis by simp
qed

text \<open>
  Claim C5 as stated fails. A challenge event on the connected session \<open>A\<close> sets its
  status to \<open>qr_ready\<close>.
\<close>

theorem challenge_regresses_connected:
  "status (heap s_connected ! 0) = ''connected'' \<and>
   status (heap (connection_update env0 0 qr_event s_connected) ! 0) = ''qr_ready''"
  by (simp add: s_connected_eval connection_update_heap after_update_def qr_event_def Let_def)

text \<open>
  Claim C5, amended. Whatever the status of the session, a connection update that carries
  a challenge and neither \<open>open\<close> nor \<open>close\<close> stores the challenge and sets the status
  to \<open>qr_ready\<close>; no test of the current status guards the branch, in either server.
\<close>

theorem challenge_sets_qr_ready:
  assumes "a < length (heap st)" and "qr_code u = Some q" and "q \<noteq> []"
    and "connection u \<noteq> Some ''open''" and "connection u \<noteq> Some ''close''"
  shows "status (heap (connection_update env a u st) ! a) = ''qr_ready'' \<and>
         qr (heap (connection_update env a u st) ! a) = Some q \<and>
         bot_status (bot_connection_update u b) = ''qr_ready'' \<and>
         bot_qr (bot_connection_update u b) = q"
  using assms
  by (simp add: connection_update_heap after_update_def bot_connection_update_def Let_def)

theorem challenge_sets_qr_ready_witness:
  "status (heap (connection_update env0 0 qr_event s_created) ! 0) = ''qr_ready'' \<and>
   qr (heap (connection_update env0 0 qr_event s_created) ! 0) = Some ''2@abc'' \<and>
   bot_status (bot_connection_update qr_event (init_bot\<lparr> bot_status := ''connected'' \<rparr>)) =
     ''qr_ready''"
  using challenge_sets_qr_ready [where st = s_created and a = 0 and u = qr_event
      and q = "''2@abc''" and env = env0 and b = "init_bot\<lparr> bot_status := ''connected'' \<rparr>"]
  by (simp add: s_created_eval qr_event_def)

section \<open>Creating a session under an id already present\<close>

text \<open>
  Claim C6 as stated fails. With session \<open>A\<close> connected, a creation request for the id
  \<open>A\<close> is answered with status 200, and once the load of its credentials has resolved
  the key \<open>A\<close> is rebound to a new record, status \<open>initializing\<close>.
\<close>

theorem duplicate_id_replaces_record:
  "map_get (activeSessions s_connected) ''A'' = Some 0 \<and>
   status (heap s_connected ! 0) = ''connected'' \<and>
   fst (post_create_session 3 (Some ''A'') s_connected) = Json 200 (Created None None) \<and>
   map_get (activeSessions s_recreated) ''A'' = Some 1 \<and>
   status (heap s_recreated ! 1) = ''initializing''"
  by (simp add: s_connected_eval s_recreated_eval post_create_session_def Let_def map_get_def)

text \<open>
  Claim C6, amended. A creation request with a caller-supplied id is answered with status
  200 whether or not the id is present; the answer is sent while the creation is
  suspended at its credential load, with the registry still as it was. When that load
  resolves, the id is bound to a newly created record with that id and status
  \<open>initializing\<close>, every other key keeps its binding and no record created earlier is
  mutated. When the load rejects, no record is created and both maps stay as they were.
\<close>

theorem create_session_always_succeeds:
  assumes "body_sessionId = Some sid" and "sid \<noteq> []"
    and "i < length (loading later)" and "loading later ! i = Some sid"
  shows "(case post_create_session now body_sessionId st of (resp, st') \<Rightarrow>
            (\<exists>x y. resp = Json 200 (Created x y)) \<and>
            heap st' = heap st \<and> activeSessions st' = activeSessions st \<and>
            pairingCodes st' = pairingCodes st \<and> loading st' = loading st @ [Some sid]) \<and>
         map_get (activeSessions (load_settles i (Some (rnd, now')) later)) sid =
           Some (length (heap later)) \<and>
         length (heap (load_settles i (Some (rnd, now')) later)) = length (heap later) + 1 \<and>
         id' (heap (load_settles i (Some (rnd, now')) later) ! length (heap later)) = sid \<and>
         status (heap (load_settles i (Some (rnd, now')) later) ! length (heap later)) =
           ''initializing'' \<and>
         (\<forall>k. k \<noteq> sid \<longrightarrow>
            map_get (activeSessions (load_settles i (Some (rnd, now')) later)) k =
            map_get (activeSessions later) k) \<and>
         (\<forall>a < length (heap later).
            heap (load_settles i (Some (rnd, now')) later) ! a = heap later ! a) \<and>
         heap (load_settles i None later) = heap later \<and>
         activeSessions (load_settles i None later) = activeSessions later \<and>
         pairingCodes (load_settles i None later) = pairingCodes later"
  using assms
  by (simp add: post_create_session_def createWhatsAppConnection_def load_settles_def
        loaded_eq Let_def or_else_def map_get_map_set nth_append)

theorem create_session_always_succeeds_witness:
  "fst (post_create_session 3 (Some ''A'') s_connected) = Json 200 (Created None None) \<and>
   activeSessions (snd (post_create_session 3 (Some ''A'') s_connected)) = [(''A'', 0)] \<and>
   loading (snd (post_create_session 3 (Some ''A'') s_connected)) = [Some ''A''] \<and>
   map_get (activeSessions (load_settles 0 (Some (rnd0, 4))
     (snd (post_create_session 3 (Some ''A'') s_connected)))) ''A'' = Some 1 \<and>
   heap (load_settles 0 (Some (rnd0, 4))
     (snd (post_create_session 3 (Some ''A'') s_connected))) ! 0 = heap s_connected ! 0 \<and>
   activeSessions (load_settles 0 None (snd (post_create_session 3 (Some ''A'') s_connected))) =
     [(''A'', 0)]"
proof -
  have p: "post_create_session 3 (Some ''A'') s_connected =
           (Json 200 (Created None None), s_connected\<lparr> loading := [Some ''A''] \<rparr>)"
    by (simp add: post_create_session_def createWhatsAppConnection_def Let_def or_else_def
          s_connected_eval)
  have h: "0 < length (loading (s_connected\<lparr> loading := [Some ''A''] \<rparr>))"
    "loading (s_connected\<lparr> loading := [Some ''A''] \<rparr>) ! 0 = Some ''A''"
    by simp_all
  note t = create_session_always_succeeds [where body_sessionId = "Some ''A''" and sid = "''A''"
      and now = 3 and st = s_connected and rnd = rnd0 and now' = 4 and i = 0
      and later = "s_connected\<lparr> loading := [Some ''A''] \<rparr>", OF refl _ h]
  have q: "snd (post_create_session 3 (Some ''A'') s_connected) =
           s_connected\<lparr> loading := [Some ''A''] \<rparr>"
    and f: "fst (post_create_session 3 (Some ''A'') s_connected) = Json 200 (Created None None)"
    by (simp_all add: p)
  have len: "length (heap s_connected) = Suc 0" and act: "activeSessions s_connected = [(''A'', 0)]"
    by (simp_all add: s_connected_eval)
  show ?thesis
    unfolding q using t [THEN conjunct2] f by (simp add: len act)
qed

end
